theory Spec2Isabelle
  imports Main
begin

section \<open>Python strings and integers used by fight\_script.py\<close>

text \<open>
  A Python \<open>str\<close> is modelled as a \<open>string\<close>; a \<open>char\<close> stands for a code point
  in the range U+0000 .. U+00FF (code points above that range are not represented).
  \<open>None\<close> is the \<open>None\<close> of an option type, and the truth value Python gives to
  \<open>None\<close> and to the empty string is false.
\<close>

definition isspace_char :: "char \<Rightarrow> bool" where
  \<comment> \<open>The code points below U+0100 that \<open>str.strip()\<close> removes.\<close>
  "isspace_char c =
     (let n = (of_char c :: nat)
      in (9 \<le> n \<and> n \<le> 13) \<or> (28 \<le> n \<and> n \<le> 32) \<or> n = 133 \<or> n = 160)"

definition strip :: "string \<Rightarrow> string" where
  "strip s = rev (dropWhile isspace_char (rev (dropWhile isspace_char s)))"

definition is_ascii_digit :: "char \<Rightarrow> bool" where
  "is_ascii_digit c = (let n = (of_char c :: nat) in 48 \<le> n \<and> n \<le> 57)"

definition isdigit_char :: "char \<Rightarrow> bool" where
  \<comment> \<open>\<open>str.isdigit\<close> also accepts the superscript digits U+00B2, U+00B3 and U+00B9.\<close>
  "isdigit_char c =
     (let n = (of_char c :: nat) in is_ascii_digit c \<or> n = 178 \<or> n = 179 \<or> n = 185)"

definition isdigit :: "string \<Rightarrow> bool" where
  "isdigit s = (s \<noteq> [] \<and> list_all isdigit_char s)"

datatype error = CalledProcessError int | OSError | UnicodeDecodeError | ValueError | IndexError

definition digits_value :: "string \<Rightarrow> nat" where
  "digits_value s = foldl (\<lambda>acc c. acc * 10 + (of_char c - 48)) 0 s"

definition py_int :: "string \<Rightarrow> error + int" where
  \<comment> \<open>\<open>int(s)\<close> for the arguments the script passes, which satisfy \<open>isdigit\<close>:
      the decimal value of ASCII digits, ValueError for a superscript digit. The limit that
      newer interpreters put on the number of digits of a numeral is not modelled.\<close>
  "py_int s =
     (if s \<noteq> [] \<and> list_all is_ascii_digit s then Inr (int (digits_value s))
      else Inl ValueError)"

definition digit_char :: "nat \<Rightarrow> char" where
  "digit_char d = char_of (48 + d)"

function str_nat :: "nat \<Rightarrow> string" where
  "str_nat n = (if n < 10 then [digit_char n] else str_nat (n div 10) @ [digit_char (n mod 10)])"
  by pat_completeness auto
termination
  by (relation "measure id") auto

declare str_nat.simps [simp del]

definition str_int :: "int \<Rightarrow> string" where
  \<comment> \<open>\<open>str(n)\<close> of a Python int.\<close>
  "str_int n = (if n < 0 then CHR ''-'' # str_nat (nat (- n)) else str_nat (nat n))"

fun split_on :: "char \<Rightarrow> string \<Rightarrow> string list" where
  \<comment> \<open>\<open>s.split(sep)\<close> for a one-character separator: empty fields are kept.\<close>
  "split_on sep [] = [[]]"
| "split_on sep (c # cs) =
     (if c = sep then [] # split_on sep cs
      else (case split_on sep cs of
              [] \<Rightarrow> [[c]]
            | w # ws \<Rightarrow> (c # w) # ws))"

definition remove_quotes :: "string \<Rightarrow> string" where
  \<comment> \<open>\<open>s.replace("'", "")\<close>\<close>
  "remove_quotes s = filter (\<lambda>c. c \<noteq> CHR 0x27) s"

definition truthy :: "string option \<Rightarrow> bool" where
  "truthy x = (case x of None \<Rightarrow> False | Some s \<Rightarrow> s \<noteq> [])"

definition or_else :: "string option \<Rightarrow> string \<Rightarrow> string" where
  \<comment> \<open>\<open>x or d\<close> for \<open>x\<close> a string or None\<close>
  "or_else x d = (case x of None \<Rightarrow> d | Some s \<Rightarrow> if s \<noteq> [] then s else d)"

section \<open>The outside world: the cluster client, the random source, the clock\<close>

text \<open>
  A command is what \<open>run_command\<close> receives: an argument vector or one command line,
  together with the \<open>shell\<close> flag. The world answers a \<open>subprocess.run\<close> in one of
  three ways: with a process that ran and whose output is text (return code and standard
  output); with a process that ran, with some return code, and whose captured output cannot
  be decoded as text, for which \<open>subprocess.run\<close> raises a UnicodeDecodeError while it
  collects the output, before it looks at the return code; or with a process that could not
  be started, for which \<open>subprocess.run\<close> raises an OSError.
\<close>

datatype cmd = Argv "string list" | Line string

datatype proc = Exited int string | Undecodable int | Not_started

datatype level = DEBUG | INFO | WARNING | ERROR

datatype mval = VNone | VStr string | VSeconds int

type_synonym metrics = "(string \<times> mval) list"

datatype message =
    Command_failed int
  | Error_output
  | Getting_controllers string
  | Namespace_missing string
  | No_controllers_found
  | Found_pods nat nat
  | Metrics_error string
  | Could_not_get_replicas string string
  | Reducing string string string int
  | Starting_battle string
  | Strategy_interval string int
  | Round_header int
  | Battle_over_no_controllers
  | Battle_over_no_pods
  | Remaining_controllers nat
  | Current_pods nat
  | Pod_line string metrics
  | Winner_pod string
  | Winner_controller string
  | Max_rounds_reached int
  | Next_round_in int

text \<open>
  Everything the script does to the outside is recorded in order: the commands it runs,
  the lines it logs, its sleeps. \<open>Invoked_reduce\<close> marks an entry into
  \<open>reduce_controller\<close>, so that invocations can be counted.
\<close>

datatype event =
    Ran cmd bool
  | Logged level message
  | Slept int
  | Invoked_reduce string string string

record 'w state =
  world :: 'w
  events :: "event list"

record 'w env =
  exec :: "'w \<Rightarrow> cmd \<Rightarrow> bool \<Rightarrow> proc \<times> 'w"
  randbelow :: "'w \<Rightarrow> nat \<Rightarrow> nat \<times> 'w"
  age_of :: "'w \<Rightarrow> string \<Rightarrow> int option"

text \<open>
  \<open>age_of env w ts\<close> stands for \<open>datetime.strptime(ts, "%Y-%m-%dT%H:%M:%SZ")\<close>
  followed by \<open>(datetime.utcnow() - creation_dt).total_seconds()\<close>: \<open>None\<close> when
  \<open>strptime\<close> raises ValueError, otherwise the age, counted in microseconds (it is
  zero, and so false as a truth value, exactly when the float is).
\<close>

type_synonym ('w, 'a) prog = "'w state \<Rightarrow> (error + 'a) \<times> 'w state"

definition ret :: "'a \<Rightarrow> ('w, 'a) prog" where
  "ret a s = (Inr a, s)"

definition raise :: "error \<Rightarrow> ('w, 'a) prog" where
  "raise e s = (Inl e, s)"

definition bindE :: "('w, 'a) prog \<Rightarrow> ('a \<Rightarrow> ('w, 'b) prog) \<Rightarrow> ('w, 'b) prog" where
  "bindE m f s = (case m s of (Inl e, s') \<Rightarrow> (Inl e, s') | (Inr a, s') \<Rightarrow> f a s')"

definition emit :: "event \<Rightarrow> 'w state \<Rightarrow> 'w state" where
  "emit ev s = s\<lparr>events := events s @ [ev]\<rparr>"

definition log :: "level \<Rightarrow> message \<Rightarrow> ('w, unit) prog" where
  "log lvl msg s = (Inr (), emit (Logged lvl msg) s)"

section \<open>run\_command\<close>

definition subprocess_run :: "'w env \<Rightarrow> cmd \<Rightarrow> bool \<Rightarrow> ('w, string) prog" where
  \<comment> \<open>\<open>subprocess.run(cmd, shell=..., check=True, capture_output=True, text=True)\<close>;
      the event \<open>Ran\<close> records the call, whether or not the process could be started\<close>
  "subprocess_run e c shell s =
     (let (p, w') = exec e (world s) c shell;
          s' = emit (Ran c shell) (s\<lparr>world := w'\<rparr>)
      in case p of
           Not_started \<Rightarrow> (Inl OSError, s')
         | Undecodable rc \<Rightarrow> (Inl UnicodeDecodeError, s')
         | Exited rc out \<Rightarrow>
             if rc \<noteq> 0 then (Inl (CalledProcessError rc), s') else (Inr out, s'))"

definition run_command :: "'w env \<Rightarrow> cmd \<Rightarrow> bool \<Rightarrow> ('w, string option) prog" where
  "run_command e c shell s =
     (case (if shell then subprocess_run e c True s else subprocess_run e c False s) of
        (Inr out, s') \<Rightarrow> (Inr (Some (strip out)), s')
      | (Inl (CalledProcessError rc), s') \<Rightarrow>
          (Inr None, emit (Logged DEBUG Error_output) (emit (Logged ERROR (Command_failed rc)) s'))
      | (Inl err, s') \<Rightarrow> (Inl err, s'))"

section \<open>get\_controllers\<close>

definition jsonpath :: "string \<Rightarrow> string" where
  \<comment> \<open>\<open>jsonpath='...'\<close>, with the quotes that the script writes around the template\<close>
  "jsonpath t = ''jsonpath='' @ [CHR 0x27] @ t @ [CHR 0x27]"

definition names_template :: string where
  \<comment> \<open>\<open>{range .items[*]}{.metadata.name}{"\n"}{end}\<close>, the \<open>\n\<close> being a backslash and an n\<close>
  "names_template =
     ''{range .items[*]}{.metadata.name}{'' @ [CHR 0x22, CHR 0x5C, CHR ''n'', CHR 0x22] @ ''}{end}''"

definition namespace_cmd :: "string \<Rightarrow> cmd" where
  "namespace_cmd namespace =
     Argv [''kubectl'', ''get'', ''namespace'', namespace, ''--no-headers'', ''--request-timeout=5s'']"

definition list_cmd :: "string \<Rightarrow> string \<Rightarrow> cmd" where
  "list_cmd resource namespace =
     Argv [''kubectl'', ''get'', resource, ''-n'', namespace,
           ''-o'', jsonpath names_template, ''--request-timeout=5s'']"

definition names_of :: "string \<Rightarrow> string list" where
  \<comment> \<open>\<open>output.replace("'", "").split("\n")\<close>\<close>
  "names_of output = split_on (CHR 0x0A) (remove_quotes output)"

definition combine :: "string list \<Rightarrow> string list" where
  \<comment> \<open>the loop that extends \<open>controllers\<close> with the names of every non-empty output\<close>
  "combine outputs =
     foldl (\<lambda>controllers output.
              if output \<noteq> [] then controllers @ names_of output else controllers) [] outputs"

datatype listing = No_tuple | Tuple "string list" "string list"

text \<open>
  \<open>get_controllers\<close> returns the empty list \<open>[]\<close> when the namespace check gives
  nothing (\<open>No_tuple\<close>), and the pair \<open>(controllers, pods)\<close> otherwise.
\<close>

definition get_controllers :: "'w env \<Rightarrow> string \<Rightarrow> ('w, listing) prog" where
  "get_controllers e namespace =
     bindE (log INFO (Getting_controllers namespace)) (\<lambda>_.
     bindE (run_command e (namespace_cmd namespace) False) (\<lambda>ns_check.
       if \<not> truthy ns_check then
         bindE (log ERROR (Namespace_missing namespace)) (\<lambda>_. ret No_tuple)
       else
         bindE (run_command e (list_cmd ''deployments'' namespace) False) (\<lambda>r1.
         let deployments = or_else r1 [] in
         bindE (run_command e (list_cmd ''statefulsets'' namespace) False) (\<lambda>r2.
         let statefulsets = or_else r2 [] in
         bindE (run_command e (list_cmd ''replicasets'' namespace) False) (\<lambda>r3.
         let replicasets = or_else r3 [];
             controllers = combine [deployments, statefulsets, replicasets] in
         bindE (if controllers = [] then log WARNING No_controllers_found else ret ()) (\<lambda>_.
         bindE (run_command e (list_cmd ''pods'' namespace) False) (\<lambda>r4.
         let pods_output = or_else r4 [];
             pods = filter (\<lambda>pod. pod \<noteq> []) (names_of pods_output) in
         bindE (log INFO (Found_pods (length pods) (length controllers))) (\<lambda>_.
         ret (Tuple controllers pods)))))))))"

section \<open>get\_pod\_metrics\<close>

definition top_cmd :: "string \<Rightarrow> string \<Rightarrow> string \<Rightarrow> cmd" where
  "top_cmd pod_name namespace col =
     Line (''kubectl top pod '' @ pod_name @ '' -n '' @ namespace @
           '' --no-headers | awk '{print $'' @ col @ ''}'' @ [CHR 0x27])"

definition pod_field_cmd :: "string \<Rightarrow> string \<Rightarrow> string \<Rightarrow> cmd" where
  "pod_field_cmd pod_name namespace t =
     Line (''kubectl get pod '' @ pod_name @ '' -n '' @ namespace @ '' -o '' @ jsonpath t)"

definition str_or_none :: "string option \<Rightarrow> mval" where
  "str_or_none x = (case x of None \<Rightarrow> VNone | Some s \<Rightarrow> VStr s)"

definition metrics_failed :: "string \<Rightarrow> metrics \<Rightarrow> ('w, metrics) prog" where
  \<comment> \<open>the \<open>except Exception\<close> handler: warn, return what was collected\<close>
  "metrics_failed pod_name m = bindE (log WARNING (Metrics_error pod_name)) (\<lambda>_. ret m)"

definition get_pod_metrics :: "'w env \<Rightarrow> string \<Rightarrow> string \<Rightarrow> ('w, metrics) prog" where
  "get_pod_metrics e pod_name namespace s =
     (case run_command e (top_cmd pod_name namespace ''2'') True s of
        (Inl _, s1) \<Rightarrow> metrics_failed pod_name [] s1
      | (Inr cpu, s1) \<Rightarrow>
     let m1 = [(''cpu'', str_or_none cpu)] in
     (case run_command e (top_cmd pod_name namespace ''3'') True s1 of
        (Inl _, s2) \<Rightarrow> metrics_failed pod_name m1 s2
      | (Inr mem, s2) \<Rightarrow>
     let m2 = m1 @ [(''memory'', str_or_none mem)] in
     (case run_command e
             (pod_field_cmd pod_name namespace ''{.status.containerStatuses[0].restartCount}'')
             True s2 of
        (Inl _, s3) \<Rightarrow> metrics_failed pod_name m2 s3
      | (Inr restarts, s3) \<Rightarrow>
     let m3 = m2 @ [(''restarts'', VStr (or_else restarts ''0''))] in
     (case run_command e
             (pod_field_cmd pod_name namespace ''{.metadata.creationTimestamp}'') True s3 of
        (Inl _, s4) \<Rightarrow> metrics_failed pod_name m3 s4
      | (Inr creation_time, s4) \<Rightarrow>
          (case creation_time of
             None \<Rightarrow> (Inr m3, s4)
           | Some ts \<Rightarrow>
               if ts = [] then (Inr m3, s4)
               else (case age_of e (world s4) ts of
                       None \<Rightarrow> metrics_failed pod_name m3 s4
                     | Some a \<Rightarrow> (Inr (m3 @ [(''age'', VSeconds a)]), s4)))))))"

section \<open>select\_controller\_for\_reduction\<close>

definition random_choice :: "'w env \<Rightarrow> 'a list \<Rightarrow> ('w, 'a) prog" where
  \<comment> \<open>\<open>random.choice(seq)\<close>: IndexError on an empty sequence, otherwise the element at
      an index below the length, drawn from the random source\<close>
  "random_choice e xs s =
     (if xs = [] then (Inl IndexError, s)
      else (let (i, w') = randbelow e (world s) (length xs)
            in (Inr (xs ! (i mod length xs)), s\<lparr>world := w'\<rparr>)))"

definition probe_cmd :: "string \<Rightarrow> string \<Rightarrow> string \<Rightarrow> cmd" where
  "probe_cmd kind controller namespace =
     Line (''kubectl get '' @ kind @ '' '' @ controller @ '' -n '' @ namespace)"

text \<open>
  The result \<open>None\<close> stands for the pair \<open>(None, None)\<close> that the function returns for
  an empty list, \<open>Some (controller, controller_type)\<close> for the pair of two strings.
\<close>

definition select_controller_for_reduction ::
  "'w env \<Rightarrow> string list \<Rightarrow> string \<Rightarrow> string \<Rightarrow> ('w, (string \<times> string) option) prog" where
  "select_controller_for_reduction e controllers namespace strategy =
     (if controllers = [] then ret None
      else
        bindE (if strategy = ''random'' then random_choice e controllers
               else random_choice e controllers) (\<lambda>controller.
        bindE (run_command e (probe_cmd ''deployment'' controller namespace) True) (\<lambda>r1.
          if truthy r1 then ret (Some (controller, ''deployment''))
          else
            bindE (run_command e (probe_cmd ''statefulset'' controller namespace) True) (\<lambda>r2.
              if truthy r2 then ret (Some (controller, ''statefulset''))
              else ret (Some (controller, ''replicaset''))))))"

section \<open>reduce\_controller\<close>

definition replicas_cmd :: "string \<Rightarrow> string \<Rightarrow> string \<Rightarrow> cmd" where
  "replicas_cmd kind controller_name namespace =
     Line (''kubectl get '' @ kind @ '' '' @ controller_name @ '' -n '' @ namespace @
           '' -o '' @ jsonpath ''{.spec.replicas}'')"

definition scale_cmd :: "string \<Rightarrow> string \<Rightarrow> string \<Rightarrow> string \<Rightarrow> cmd" where
  "scale_cmd kind controller_name new_replicas namespace =
     Argv [''kubectl'', ''scale'', kind, controller_name, ''--replicas'', new_replicas,
           ''-n'', namespace]"

definition kind_of :: "string \<Rightarrow> string" where
  \<comment> \<open>the three-way branch on \<open>controller_type\<close>, whose last branch takes every other value\<close>
  "kind_of controller_type =
     (if controller_type = ''deployment'' then ''deployment''
      else if controller_type = ''statefulset'' then ''statefulset''
      else ''replicaset'')"

definition reduce_controller :: "'w env \<Rightarrow> string \<Rightarrow> string \<Rightarrow> string \<Rightarrow> ('w, bool) prog" where
  "reduce_controller e controller_name namespace controller_type s0 =
     (let s = emit (Invoked_reduce controller_name namespace controller_type) s0 in
      if controller_name = [] then (Inr False, s)
      else
        bindE (run_command e (replicas_cmd (kind_of controller_type) controller_name namespace) True)
          (\<lambda>replicas.
             let give_up = bindE (log WARNING (Could_not_get_replicas controller_type controller_name))
                             (\<lambda>_. ret False)
             in case replicas of
                  None \<Rightarrow> give_up
                | Some r \<Rightarrow>
                    if r = [] \<or> \<not> isdigit r then give_up
                    else (case py_int r of
                            Inl err \<Rightarrow> raise err
                          | Inr n \<Rightarrow>
                              if n \<le> 0 then give_up
                              else
                                let new_replicas = max 0 (n - 1) in
                                bindE (log INFO (Reducing controller_type controller_name r new_replicas))
                                  (\<lambda>_.
                                bindE (run_command e
                                         (scale_cmd (kind_of controller_type) controller_name
                                            (str_int new_replicas) namespace) False)
                                  (\<lambda>result. ret (result \<noteq> None))))) s)"

section \<open>battle\<close>

definition truthy_val :: "mval \<Rightarrow> bool" where
  "truthy_val v = (case v of VNone \<Rightarrow> False | VStr s \<Rightarrow> s \<noteq> [] | VSeconds a \<Rightarrow> a \<noteq> 0)"

definition reported :: "metrics \<Rightarrow> metrics" where
  \<comment> \<open>the entries that make \<open>metrics_str\<close>: \<open>for k, v in metrics.items() if v\<close>\<close>
  "reported m = filter (\<lambda>(k, v). truthy_val v) m"

fun report_pods :: "'w env \<Rightarrow> string \<Rightarrow> string list \<Rightarrow> ('w, unit) prog" where
  "report_pods e namespace [] = ret ()"
| "report_pods e namespace (pod # pods) =
     bindE (get_pod_metrics e pod namespace) (\<lambda>m.
     bindE (log INFO (Pod_line pod (reported m))) (\<lambda>_.
     report_pods e namespace pods))"

definition sleep :: "int \<Rightarrow> ('w, unit) prog" where
  \<comment> \<open>\<open>time.sleep\<close> raises ValueError for a negative length\<close>
  "sleep interval s = (if interval < 0 then (Inl ValueError, s) else (Inr (), emit (Slept interval) s))"

datatype flow = Break | Continue

definition limit_reached :: "int option \<Rightarrow> int \<Rightarrow> bool" where
  \<comment> \<open>\<open>max_rounds and round_num >= max_rounds\<close>: None and 0 are false\<close>
  "limit_reached max_rounds round_num =
     (case max_rounds of None \<Rightarrow> False | Some m \<Rightarrow> m \<noteq> 0 \<and> round_num \<ge> m)"

definition battle_round ::
  "'w env \<Rightarrow> string \<Rightarrow> int \<Rightarrow> string \<Rightarrow> int option \<Rightarrow> int \<Rightarrow> ('w, flow) prog" where
  \<comment> \<open>one pass through the body of \<open>while True\<close>\<close>
  "battle_round e namespace interval strategy max_rounds round_num =
     bindE (log INFO (Round_header round_num)) (\<lambda>_.
     bindE (get_controllers e namespace) (\<lambda>listing.
       case listing of
         No_tuple \<Rightarrow> raise ValueError
       | Tuple controllers pods \<Rightarrow>
           if controllers = [] then
             bindE (log INFO Battle_over_no_controllers) (\<lambda>_. ret Break)
           else if pods = [] then
             bindE (log INFO Battle_over_no_pods) (\<lambda>_. ret Break)
           else
             bindE (log INFO (Remaining_controllers (length controllers))) (\<lambda>_.
             bindE (log INFO (Current_pods (length pods))) (\<lambda>_.
             bindE (report_pods e namespace pods) (\<lambda>_.
               if length controllers = 1 \<and> length pods \<le> 1 then
                 bindE (if pods \<noteq> [] then log INFO (Winner_pod (hd pods))
                        else log INFO (Winner_controller (hd controllers))) (\<lambda>_. ret Break)
               else
                 bindE (select_controller_for_reduction e controllers namespace strategy) (\<lambda>sel.
                 bindE (case sel of
                          None \<Rightarrow> ret ()
                        | Some (target_controller, controller_type) \<Rightarrow>
                            if target_controller \<noteq> [] then
                              bindE (reduce_controller e target_controller namespace controller_type)
                                (\<lambda>_. ret ())
                            else ret ()) (\<lambda>_.
                   if limit_reached max_rounds round_num then
                     bindE (log INFO (Max_rounds_reached (the max_rounds))) (\<lambda>_. ret Break)
                   else
                     bindE (log INFO (Next_round_in interval)) (\<lambda>_.
                     bindE (sleep interval) (\<lambda>_. ret Continue)))))))))"

text \<open>
  The loop may run for ever, so it is given fuel, one unit for each round: \<open>None\<close> means
  that the fuel ran out before the loop ended. A result \<open>Some (Inr (), s)\<close> is a \<open>break\<close>, a result
  \<open>Some (Inl err, s)\<close> an exception that leaves \<open>battle\<close>.
\<close>

fun battle_loop ::
  "nat \<Rightarrow> 'w env \<Rightarrow> string \<Rightarrow> int \<Rightarrow> string \<Rightarrow> int option \<Rightarrow> int \<Rightarrow> 'w state
     \<Rightarrow> ((error + unit) \<times> 'w state) option" where
  "battle_loop 0 e namespace interval strategy max_rounds round_num s = None"
| "battle_loop (Suc fuel) e namespace interval strategy max_rounds round_num s =
     (case battle_round e namespace interval strategy max_rounds round_num s of
        (Inl err, s') \<Rightarrow> Some (Inl err, s')
      | (Inr Break, s') \<Rightarrow> Some (Inr (), s')
      | (Inr Continue, s') \<Rightarrow>
          battle_loop fuel e namespace interval strategy max_rounds (round_num + 1) s')"

definition battle ::
  "nat \<Rightarrow> 'w env \<Rightarrow> string \<Rightarrow> int \<Rightarrow> string \<Rightarrow> int option \<Rightarrow> 'w state
     \<Rightarrow> ((error + unit) \<times> 'w state) option" where
  "battle fuel e namespace interval strategy max_rounds s =
     battle_loop fuel e namespace interval strategy max_rounds 1
       (emit (Logged INFO (Strategy_interval strategy interval))
          (emit (Logged INFO (Starting_battle namespace)) s))"

section \<open>Observing a run\<close>

text \<open>
  The claims speak of scale requests and of invocations of the reduce operation. Both are
  read off the recorded events: a scale request is a run of \<open>kubectl scale ...\<close>, an
  invocation is an \<open>Invoked_reduce\<close> mark.
\<close>

fun is_scale :: "cmd \<Rightarrow> bool" where
  "is_scale (Argv (a # b # rest)) = (a = ''kubectl'' \<and> b = ''scale'')"
| "is_scale _ = False"

definition is_scale_event :: "event \<Rightarrow> bool" where
  "is_scale_event ev = (case ev of Ran c shell \<Rightarrow> is_scale c | _ \<Rightarrow> False)"

definition scale_events :: "event list \<Rightarrow> event list" where
  "scale_events evs = filter is_scale_event evs"

definition is_reduce_call :: "event \<Rightarrow> bool" where
  "is_reduce_call ev = (case ev of Invoked_reduce _ _ _ \<Rightarrow> True | _ \<Rightarrow> False)"

definition reduce_calls :: "event list \<Rightarrow> nat" where
  "reduce_calls evs = length (filter is_reduce_call evs)"



definition adds_at_most :: "nat \<Rightarrow> ('w, 'a) prog \<Rightarrow> bool" where
  "adds_at_most k m = (\<forall>s. reduce_calls (events (snd (m s))) \<le> reduce_calls (events s) + k)"

definition returns :: "('w, 'a) prog \<Rightarrow> bool" where
  "returns m = (\<forall>s. \<exists>a s'. m s = (Inr a, s'))"

section \<open>Sample clusters\<close>

text \<open>
  Concrete worlds on which the definitions are run. A scripted world answers each command
  from a table (a command missing from the table exits with status 1); it counts the scale
  commands it has seen and answers from the second table once there has been one. Its
  random source always draws 0 and every pod it knows is ninety seconds old.
\<close>

definition answers :: "(cmd \<times> proc) list \<Rightarrow> cmd \<Rightarrow> proc" where
  "answers tbl c = (case map_of tbl c of Some p \<Rightarrow> p | None \<Rightarrow> Exited 1 [])"

definition scripted :: "(cmd \<times> proc) list \<Rightarrow> (cmd \<times> proc) list \<Rightarrow> nat env" where
  "scripted first later =
     \<lparr>exec = (\<lambda>w c shell. (answers (if w = 0 then first else later) c,
                             if is_scale c then Suc w else w)),
      randbelow = (\<lambda>w n. (0, w)),
      age_of = (\<lambda>w ts. Some 90000000)\<rparr>"

definition quoted_lines :: "string list \<Rightarrow> string" where
  "quoted_lines names = [CHR 0x27] @ concat (map (\<lambda>n. n @ [CHR 0x0A]) names) @ [CHR 0x27]"

definition arena_before :: "(cmd \<times> proc) list" where
  "arena_before =
     [(namespace_cmd ''arena'', Exited 0 ''arena   Active   5d''),
      (list_cmd ''deployments'' ''arena'', Exited 0 (quoted_lines [''web'', ''api''])),
      (list_cmd ''statefulsets'' ''arena'', Exited 0 (quoted_lines [])),
      (list_cmd ''replicasets'' ''arena'', Exited 0 (quoted_lines [])),
      (list_cmd ''pods'' ''arena'', Exited 0 (quoted_lines [''web-1'', ''api-1''])),
      (probe_cmd ''deployment'' ''web'' ''arena'', Exited 0 ''web   1/1   1   1   5d''),
      (replicas_cmd ''deployment'' ''web'' ''arena'', Exited 0 ''1''),
      (scale_cmd ''deployment'' ''web'' ''0'' ''arena'', Exited 0 ''deployment.apps/web scaled'')]"

definition arena_after :: "(cmd \<times> proc) list" where
  "arena_after =
     [(namespace_cmd ''arena'', Exited 0 ''arena   Active   5d''),
      (list_cmd ''deployments'' ''arena'', Exited 0 (quoted_lines [''web'', ''api''])),
      (list_cmd ''statefulsets'' ''arena'', Exited 0 (quoted_lines [])),
      (list_cmd ''replicasets'' ''arena'', Exited 0 (quoted_lines [])),
      (list_cmd ''pods'' ''arena'', Exited 0 (quoted_lines []))]"

definition drained :: "(cmd \<times> proc) list" where
  "drained = [(replicas_cmd ''deployment'' ''web'' ''arena'', Exited 0 ''0'')]"

definition superscript :: "(cmd \<times> proc) list" where
  "superscript = [(replicas_cmd ''deployment'' ''web'' ''arena'', Exited 0 [CHR 0xB2])]"

definition superscript_tail :: "(cmd \<times> proc) list" where
  "superscript_tail =
     [(replicas_cmd ''deployment'' ''web'' ''arena'', Exited 0 [CHR ''1'', CHR 0xB2])]"

definition lonely :: "(cmd \<times> proc) list" where
  "lonely =
     [(namespace_cmd ''arena'', Exited 0 ''arena   Active   5d''),
      (list_cmd ''deployments'' ''arena'', Exited 0 ''web''),
      (list_cmd ''pods'' ''arena'', Exited 0 (quoted_lines []))]"

definition metered :: "(cmd \<times> proc) list" where
  "metered =
     [(top_cmd ''web-1'' ''arena'' ''2'', Exited 0 ''12m''),
      (pod_field_cmd ''web-1'' ''arena'' ''{.metadata.creationTimestamp}'',
         Exited 0 ''2024-05-01T10:00:00Z'')]"


definition start :: "nat state" where
  "start = \<lparr>world = 0, events = []\<rparr>"



section \<open>Decimal numerals\<close>

text \<open>
  \<open>str\<close> and \<open>int\<close> agree on the non-negative integers: what \<open>str_int\<close> prints
  passes \<open>isdigit\<close> and is read back by \<open>py_int\<close>.
\<close>

lemma of_char_digit_char: "d < 10 \<Longrightarrow> (of_char (digit_char d) :: nat) = 48 + d"
  by (simp add: digit_char_def)

lemma is_ascii_digit_digit_char: "d < 10 \<Longrightarrow> is_ascii_digit (digit_char d)"
  by (simp add: is_ascii_digit_def of_char_digit_char)

lemma str_nat_digits: "list_all is_ascii_digit (str_nat n)"
proof (induction n rule: str_nat.induct)
  case (1 n)
  show ?case
  proof (cases "n < 10")
    case True
    then show ?thesis by (subst str_nat.simps) (simp add: is_ascii_digit_digit_char)
  next
    case False
    with 1 show ?thesis
      by (subst str_nat.simps) (simp add: is_ascii_digit_digit_char)
  qed
qed

lemma str_nat_nonempty: "str_nat n \<noteq> []"
  by (subst str_nat.simps) simp

lemma digits_value_snoc: "digits_value (s @ [c]) = digits_value s * 10 + (of_char c - 48)"
  by (simp add: digits_value_def)

lemma digits_value_str_nat: "digits_value (str_nat n) = n"
proof (induction n rule: str_nat.induct)
  case (1 n)
  show ?case
  proof (cases "n < 10")
    case True
    then show ?thesis by (subst str_nat.simps) (simp add: digits_value_def of_char_digit_char)
  next
    case False
    with 1 have "digits_value (str_nat (n div 10)) = n div 10" by simp
    with False show ?thesis
      by (subst str_nat.simps) (simp add: digits_value_snoc of_char_digit_char)
  qed
qed

lemma py_int_str_int: "0 \<le> r \<Longrightarrow> py_int (str_int r) = Inr r"
  by (simp add: py_int_def str_int_def str_nat_nonempty str_nat_digits digits_value_str_nat)

lemma isdigit_str_int: "0 \<le> r \<Longrightarrow> isdigit (str_int r)"
  using str_nat_digits [of "nat r"]
  by (auto simp add: isdigit_def str_int_def str_nat_nonempty isdigit_char_def list_all_iff)

section \<open>What one command does\<close>

lemma pairI: "fst p = a \<Longrightarrow> p = (a, snd p)"
  by (cases p) simp

lemma run_command_exec:
  "exec e (world s) c shell = (p, w') \<Longrightarrow>
   run_command e c shell s =
     (case p of
        Exited rc out \<Rightarrow>
          if rc \<noteq> 0 then
            (Inr None, s\<lparr>world := w', events := events s @
               [Ran c shell, Logged ERROR (Command_failed rc), Logged DEBUG Error_output]\<rparr>)
          else (Inr (Some (strip out)), s\<lparr>world := w', events := events s @ [Ran c shell]\<rparr>)
      | Undecodable rc \<Rightarrow>
          (Inl UnicodeDecodeError, s\<lparr>world := w', events := events s @ [Ran c shell]\<rparr>)
      | Not_started \<Rightarrow> (Inl OSError, s\<lparr>world := w', events := events s @ [Ran c shell]\<rparr>))"
  by (cases shell) (simp_all add: run_command_def subprocess_run_def emit_def split: proc.splits)

lemma scale_events_append: "scale_events (xs @ ys) = scale_events xs @ scale_events ys"
  by (simp add: scale_events_def)

lemma run_command_events:
  "run_command e c shell s = (r, s') \<Longrightarrow>
   \<exists>logs. events s' = events s @ Ran c shell # logs \<and> scale_events logs = []
          \<and> reduce_calls logs = 0"
  by (cases "exec e (world s) c shell")
     (auto simp add: run_command_exec scale_events_def is_scale_event_def reduce_calls_def
        is_reduce_call_def split: proc.splits if_splits)

lemma run_command_scale_events:
  "run_command e c shell s = (r, s') \<Longrightarrow>
   scale_events (events s') = scale_events (events s) @ (if is_scale c then [Ran c shell] else [])"
  by (drule run_command_events)
     (auto simp add: scale_events_append, simp_all add: scale_events_def is_scale_event_def)

lemma is_scale_scale_cmd: "is_scale (scale_cmd k c n ns)"
  by (simp add: scale_cmd_def)

lemma not_is_scale_replicas_cmd: "\<not> is_scale (replicas_cmd k c ns)"
  by (simp add: replicas_cmd_def)

lemma scale_events_emit_other [simp]:
  "scale_events (events (emit (Logged lvl msg) s)) = scale_events (events s)"
  "scale_events (events (emit (Invoked_reduce c ns t) s)) = scale_events (events s)"
  by (simp_all add: emit_def scale_events_def is_scale_event_def)

lemma reduce_calls_append: "reduce_calls (xs @ ys) = reduce_calls xs + reduce_calls ys"
  by (simp add: reduce_calls_def)

lemma reduce_calls_emit_log [simp]:
  "reduce_calls (events (emit (Logged lvl msg) s)) = reduce_calls (events s)"
  by (simp add: emit_def reduce_calls_def is_reduce_call_def)

lemma run_command_calls:
  "reduce_calls (events (snd (run_command e c shell s))) = reduce_calls (events s)"
proof -
  obtain r s' where run: "run_command e c shell s = (r, s')"
    by (cases "run_command e c shell s")
  from run_command_events [OF run] show ?thesis
    by (auto simp add: run reduce_calls_append reduce_calls_def is_reduce_call_def)
qed

section \<open>Choosing the controller\<close>

text \<open>
  Claim C7. For a non-empty list of controllers and each of the four accepted strategies,
  \<open>select_controller_for_reduction\<close> does exactly what it does for \<open>random\<close>: from the
  same state, so with the same random source, it returns the same result and leaves the same
  state. The controller it returns is the element of the list at the index drawn from the
  random source.
\<close>

theorem select_strategy_irrelevant:
  assumes "controllers \<noteq> []"
    and "strategy \<in> {''random'', ''youngest'', ''oldest'', ''resource-hog''}"
  shows "select_controller_for_reduction e controllers namespace strategy s =
         select_controller_for_reduction e controllers namespace ''random'' s \<and>
         (\<forall>c t s'. select_controller_for_reduction e controllers namespace strategy s
                      = (Inr (Some (c, t)), s') \<longrightarrow>
            c = controllers ! (fst (randbelow e (world s) (length controllers))
                                 mod length controllers))"
  using assms(1)
  by (auto simp add: select_controller_for_reduction_def bindE_def random_choice_def ret_def
      split: prod.splits sum.splits if_splits)

text \<open>
  The strategy \<open>resource-hog\<close> on a cluster with two deployments picks what
  \<open>random\<close> picks.
\<close>

theorem select_strategy_irrelevant_witness:
  "select_controller_for_reduction (scripted arena_before arena_after)
     [''web'', ''api'', [], [], []] ''arena'' ''resource-hog'' start =
   select_controller_for_reduction (scripted arena_before arena_after)
     [''web'', ''api'', [], [], []] ''arena'' ''random'' start \<and>
   fst (select_controller_for_reduction (scripted arena_before arena_after)
     [''web'', ''api'', [], [], []] ''arena'' ''resource-hog'' start)
     = Inr (Some (''web'', ''deployment''))"
proof -
  have h1: "[''web'', ''api'', [], [], []] \<noteq> ([] :: string list)" by simp
  have h2: "''resource-hog'' \<in> {''random'', ''youngest'', ''oldest'', ''resource-hog''}" by simp
  have v: "fst (select_controller_for_reduction (scripted arena_before arena_after)
     [''web'', ''api'', [], [], []] ''arena'' ''resource-hog'' start)
     = Inr (Some (''web'', ''deployment''))" by code_simp
  from select_strategy_irrelevant [OF h1 h2, THEN conjunct1] v show ?thesis by simp
qed

section \<open>Reducing a controller\<close>

text \<open>
  When the replica count read for a controller is absent (\<open>None\<close> or the empty string),
  does not pass \<open>isdigit\<close>, or is a number that is not positive, \<open>reduce_controller\<close>
  logs a warning and returns \<open>False\<close>: after the read it runs no command at all, so it
  issues no scale command and the world stays as the read left it.
\<close>

lemma reduce_controller_gives_up:
  assumes "controller_name \<noteq> []"
    and "run_command e (replicas_cmd (kind_of controller_type) controller_name namespace) True
           (emit (Invoked_reduce controller_name namespace controller_type) s) = (Inr replicas, s1)"
    and "replicas = None \<or>
         (\<exists>r. replicas = Some r \<and>
              (r = [] \<or> \<not> isdigit r \<or> (\<exists>n. py_int r = Inr n \<and> n \<le> 0)))"
  shows "reduce_controller e controller_name namespace controller_type s =
           (Inr False,
            emit (Logged WARNING (Could_not_get_replicas controller_type controller_name)) s1)"
  using assms
  by (auto simp add: reduce_controller_def bindE_def Let_def log_def ret_def)

text \<open>
  A deployment whose replica count reads \<open>0\<close>.
\<close>

lemma reduce_controller_gives_up_at_zero:
  "fst (run_command (scripted drained drained)
          (replicas_cmd (kind_of ''deployment'') ''web'' ''arena'') True
          (emit (Invoked_reduce ''web'' ''arena'' ''deployment'') start)) = Inr (Some ''0'') \<and>
   py_int ''0'' = Inr 0 \<and>
   fst (reduce_controller (scripted drained drained) ''web'' ''arena'' ''deployment'' start)
     = Inr False \<and>
   scale_events (events (snd (reduce_controller (scripted drained drained)
                                ''web'' ''arena'' ''deployment'' start))) = []"
proof -
  let ?e = "scripted drained drained"
  let ?run = "run_command ?e (replicas_cmd (kind_of ''deployment'') ''web'' ''arena'') True
                (emit (Invoked_reduce ''web'' ''arena'' ''deployment'') start)"
  have f: "fst ?run = Inr (Some ''0'')" by code_simp
  have p: "py_int ''0'' = Inr 0" by code_simp
  have sc: "scale_events (events (snd ?run)) = []" by code_simp
  have h1: "''web'' \<noteq> []" by simp
  have h3: "Some ''0'' = None \<or>
            (\<exists>r. Some ''0'' = Some r \<and>
                 (r = [] \<or> \<not> isdigit r \<or> (\<exists>n. py_int r = Inr n \<and> n \<le> 0)))"
    using p by simp
  from reduce_controller_gives_up [OF h1 pairI [OF f] h3]
  show ?thesis using f p sc by simp
qed

text \<open>
  Claim C4, at a replica count that is not a number and yet passes the test of the code.
  The count read is the superscript two (and, in a second cluster, a one followed by it):
  \<open>isdigit\<close> accepts it, \<open>int\<close> refuses it, and the ValueError leaves
  \<open>reduce_controller\<close>, which so does not return \<open>False\<close>. No scale command has
  been run.
\<close>

theorem superscript_replica_count_raises:
  "fst (run_command (scripted superscript superscript)
          (replicas_cmd ''deployment'' ''web'' ''arena'') True
          (emit (Invoked_reduce ''web'' ''arena'' ''deployment'') start)) = Inr (Some [CHR 0xB2]) \<and>
   isdigit [CHR 0xB2] \<and> py_int [CHR 0xB2] = Inl ValueError \<and>
   fst (reduce_controller (scripted superscript superscript) ''web'' ''arena'' ''deployment'' start)
     = Inl ValueError \<and>
   fst (reduce_controller (scripted superscript superscript) ''web'' ''arena'' ''deployment'' start)
     \<noteq> Inr False \<and>
   scale_events (events (snd (reduce_controller (scripted superscript superscript)
                                ''web'' ''arena'' ''deployment'' start))) = [] \<and>
   isdigit [CHR ''1'', CHR 0xB2] \<and>
   fst (reduce_controller (scripted superscript_tail superscript_tail)
          ''web'' ''arena'' ''deployment'' start) = Inl ValueError"
  by code_simp

lemma reduce_controller_scales:
  assumes "controller_name \<noteq> []"
    and "run_command e (replicas_cmd (kind_of controller_type) controller_name namespace) True
           (emit (Invoked_reduce controller_name namespace controller_type) s) = (Inr (Some r), s1)"
    and "isdigit r" and "py_int r = Inr n" and "0 < n"
  shows "scale_events (events (snd (reduce_controller e controller_name namespace controller_type s)))
         = scale_events (events s) @
           [Ran (scale_cmd (kind_of controller_type) controller_name (str_int (max 0 (n - 1)))
                   namespace) False]"
proof -
  let ?sc = "scale_cmd (kind_of controller_type) controller_name (str_int (max 0 (n - 1))) namespace"
  let ?s2 = "emit (Logged INFO (Reducing controller_type controller_name r (max 0 (n - 1)))) s1"
  from assms(3) have rne: "r \<noteq> []" by (simp add: isdigit_def)
  obtain res s3 where run: "run_command e ?sc False ?s2 = (res, s3)"
    by (cases "run_command e ?sc False ?s2")
  have red: "snd (reduce_controller e controller_name namespace controller_type s) = s3"
    using assms rne run
    by (cases res) (simp_all add: reduce_controller_def bindE_def Let_def log_def ret_def)
  from run_command_events [OF assms(2)] obtain l1 where
    l1: "events s1 = events (emit (Invoked_reduce controller_name namespace controller_type) s)
                       @ Ran (replicas_cmd (kind_of controller_type) controller_name namespace) True # l1"
    and l1s: "scale_events l1 = []" by blast
  from run_command_events [OF run] obtain l2 where
    l2: "events s3 = events ?s2 @ Ran ?sc False # l2" and l2s: "scale_events l2 = []" by blast
  show ?thesis
    unfolding red l2 using l1 l1s l2s
    by (simp add: scale_events_append emit_def)
       (simp add: scale_events_def is_scale_event_def is_scale_scale_cmd not_is_scale_replicas_cmd)
qed

lemma reduce_controller_cases:
  assumes "controller_name \<noteq> []"
    and "run_command e (replicas_cmd (kind_of controller_type) controller_name namespace) True
           (emit (Invoked_reduce controller_name namespace controller_type) s) = (rr, s1)"
  shows "reduce_controller e controller_name namespace controller_type s =
           (let give_up = (Inr False, emit (Logged WARNING
                             (Could_not_get_replicas controller_type controller_name)) s1)
            in case rr of
                 Inl err \<Rightarrow> (Inl err, s1)
               | Inr None \<Rightarrow> give_up
               | Inr (Some r) \<Rightarrow>
                   if r = [] \<or> \<not> isdigit r then give_up
                   else (case py_int r of
                           Inl err \<Rightarrow> (Inl err, s1)
                         | Inr n \<Rightarrow>
                             if n \<le> 0 then give_up
                             else (case run_command e
                                          (scale_cmd (kind_of controller_type) controller_name
                                             (str_int (max 0 (n - 1))) namespace) False
                                          (emit (Logged INFO (Reducing controller_type
                                                   controller_name r (max 0 (n - 1)))) s1) of
                                     (Inl err, s3) \<Rightarrow> (Inl err, s3)
                                   | (Inr result, s3) \<Rightarrow> (Inr (result \<noteq> None), s3))))"
  using assms
  by (simp add: reduce_controller_def bindE_def Let_def log_def ret_def raise_def
      split: sum.splits option.splits prod.splits)

text \<open>
  Claim C3, as amended. Whatever \<open>reduce_controller\<close> is given, it issues no scale
  command or one scale command, and the replica count of that command is the numeral of a
  non-negative integer. When the replica count read is a positive integer \<open>n\<close>, it issues
  exactly one scale command, for \<open>max 0 (n - 1)\<close> replicas.
\<close>

theorem reduce_controller_scale_request:
  "(\<exists>m\<ge>0.
      scale_events (events (snd (reduce_controller e controller_name namespace controller_type s)))
        = scale_events (events s) \<or>
      scale_events (events (snd (reduce_controller e controller_name namespace controller_type s)))
        = scale_events (events s) @
          [Ran (scale_cmd (kind_of controller_type) controller_name (str_int m) namespace) False])
   \<and>
   (\<forall>r n s1.
      controller_name \<noteq> [] \<and>
      run_command e (replicas_cmd (kind_of controller_type) controller_name namespace) True
        (emit (Invoked_reduce controller_name namespace controller_type) s) = (Inr (Some r), s1) \<and>
      isdigit r \<and> py_int r = Inr n \<and> 0 < n \<longrightarrow>
      scale_events (events (snd (reduce_controller e controller_name namespace controller_type s)))
        = scale_events (events s) @
          [Ran (scale_cmd (kind_of controller_type) controller_name (str_int (max 0 (n - 1)))
                  namespace) False])"
proof (intro conjI allI impI)
  fix r n s1
  assume "controller_name \<noteq> [] \<and>
      run_command e (replicas_cmd (kind_of controller_type) controller_name namespace) True
        (emit (Invoked_reduce controller_name namespace controller_type) s) = (Inr (Some r), s1) \<and>
      isdigit r \<and> py_int r = Inr n \<and> 0 < n"
  then show "scale_events (events (snd (reduce_controller e controller_name namespace controller_type s)))
        = scale_events (events s) @
          [Ran (scale_cmd (kind_of controller_type) controller_name (str_int (max 0 (n - 1)))
                  namespace) False]"
    using reduce_controller_scales by blast
next
  let ?after = "scale_events (events (snd (reduce_controller e controller_name namespace controller_type s)))"
  show "\<exists>m\<ge>0. ?after = scale_events (events s) \<or>
          ?after = scale_events (events s) @
            [Ran (scale_cmd (kind_of controller_type) controller_name (str_int m) namespace) False]"
  proof (cases "controller_name = []")
    case True
    then have "?after = scale_events (events s)"
      by (simp add: reduce_controller_def Let_def)
    then show ?thesis by blast
  next
    case False
    obtain rr s1 where run:
      "run_command e (replicas_cmd (kind_of controller_type) controller_name namespace) True
         (emit (Invoked_reduce controller_name namespace controller_type) s) = (rr, s1)"
      by (cases "run_command e (replicas_cmd (kind_of controller_type) controller_name namespace) True
         (emit (Invoked_reduce controller_name namespace controller_type) s)")
    have s1: "scale_events (events s1) = scale_events (events s)"
      using run_command_scale_events [OF run] by (simp add: not_is_scale_replicas_cmd)
    show ?thesis
    proof (cases "\<exists>r n. rr = Inr (Some r) \<and> isdigit r \<and> py_int r = Inr n \<and> 0 < n")
      case True
      then obtain r n where "rr = Inr (Some r)" "isdigit r" "py_int r = Inr n" "0 < n" by blast
      with reduce_controller_scales [OF False run [unfolded \<open>rr = Inr (Some r)\<close>]]
      have "?after = scale_events (events s) @
            [Ran (scale_cmd (kind_of controller_type) controller_name (str_int (max 0 (n - 1)))
                    namespace) False]"
        by simp
      moreover have "0 \<le> max 0 (n - 1)" by simp
      ultimately show ?thesis by blast
    next
      case no: False
      have "?after = scale_events (events s)"
        using no s1
        by (auto simp add: reduce_controller_cases [OF False run] Let_def isdigit_def
            split: sum.splits option.splits)
      then show ?thesis by blast
    qed
  qed
qed

text \<open>
  A deployment with one replica is scaled to \<open>0\<close>.
\<close>

theorem reduce_controller_scale_request_witness:
  "fst (run_command (scripted arena_before arena_after)
          (replicas_cmd (kind_of ''deployment'') ''web'' ''arena'') True
          (emit (Invoked_reduce ''web'' ''arena'' ''deployment'') start)) = Inr (Some ''1'') \<and>
   isdigit ''1'' \<and> py_int ''1'' = Inr 1 \<and>
   scale_events (events (snd (reduce_controller (scripted arena_before arena_after)
                                ''web'' ''arena'' ''deployment'' start)))
     = [Ran (scale_cmd ''deployment'' ''web'' ''0'' ''arena'') False]"
proof -
  let ?e = "scripted arena_before arena_after"
  let ?run = "run_command ?e (replicas_cmd (kind_of ''deployment'') ''web'' ''arena'') True
                (emit (Invoked_reduce ''web'' ''arena'' ''deployment'') start)"
  have f: "fst ?run = Inr (Some ''1'')" by code_simp
  have d: "isdigit ''1''" and p: "py_int ''1'' = Inr 1" by code_simp+
  have k: "kind_of ''deployment'' = ''deployment''" and z: "str_int 0 = ''0''"
    and e0: "scale_events (events start) = []" by code_simp+
  have hyp: "''web'' \<noteq> [] \<and> ?run = (Inr (Some ''1''), snd ?run) \<and>
             isdigit ''1'' \<and> py_int ''1'' = Inr 1 \<and> (0::int) < 1"
    using pairI [OF f] d p by simp
  from reduce_controller_scale_request [of ?e "''web''" "''arena''" "''deployment''" start,
      THEN conjunct2, rule_format, OF hyp]
  have "scale_events (events (snd (reduce_controller ?e ''web'' ''arena'' ''deployment'' start)))
     = [Ran (scale_cmd ''deployment'' ''web'' ''0'' ''arena'') False]"
    by (simp add: k z e0)
  with f d p show ?thesis by simp
qed

text \<open>
  Claim C3 as stated fails for the replica count 0: the count is read, and no scale command
  follows, so the request for \<open>max 0 (0 - 1)\<close> replicas is not made.
\<close>

theorem reduce_at_zero_requests_nothing:
  "fst (run_command (scripted drained drained) (replicas_cmd ''deployment'' ''web'' ''arena'') True
          (emit (Invoked_reduce ''web'' ''arena'' ''deployment'') start)) = Inr (Some (str_int 0)) \<and>
   scale_events (events (snd (reduce_controller (scripted drained drained)
                                ''web'' ''arena'' ''deployment'' start))) = [] \<and>
   scale_events (events (snd (reduce_controller (scripted drained drained)
                                ''web'' ''arena'' ''deployment'' start)))
     \<noteq> [Ran (scale_cmd ''deployment'' ''web'' (str_int (max 0 (0 - 1))) ''arena'') False]"
  by code_simp

section \<open>Reading the metrics of a pod\<close>

text \<open>
  Claim C8, as amended. When the four probes of \<open>get_pod_metrics\<close> return, the reported
  metrics are: the CPU and the memory usage when they resolved to a non-empty string, and
  nothing for them otherwise; the restart count in every case, with the default \<open>0\<close> when
  it did not resolve; the age when the creation time resolved, could be parsed and the age is
  not zero, and nothing for it otherwise.
\<close>

theorem pod_metrics_reported:
  assumes "run_command e (top_cmd pod_name namespace ''2'') True s = (Inr cpu, s1)"
    and "run_command e (top_cmd pod_name namespace ''3'') True s1 = (Inr mem, s2)"
    and "run_command e
           (pod_field_cmd pod_name namespace ''{.status.containerStatuses[0].restartCount}'')
           True s2 = (Inr restarts, s3)"
    and "run_command e (pod_field_cmd pod_name namespace ''{.metadata.creationTimestamp}'')
           True s3 = (Inr creation_time, s4)"
  shows "\<exists>m. fst (get_pod_metrics e pod_name namespace s) = Inr m \<and>
           reported m =
             (case cpu of None \<Rightarrow> [] | Some v \<Rightarrow> if v = [] then [] else [(''cpu'', VStr v)]) @
             (case mem of None \<Rightarrow> [] | Some v \<Rightarrow> if v = [] then [] else [(''memory'', VStr v)]) @
             [(''restarts'',
               VStr (case restarts of None \<Rightarrow> ''0'' | Some v \<Rightarrow> if v = [] then ''0'' else v))] @
             (case creation_time of
                None \<Rightarrow> []
              | Some ts \<Rightarrow>
                  if ts = [] then []
                  else (case age_of e (world s4) ts of
                          None \<Rightarrow> []
                        | Some a \<Rightarrow> if a = 0 then [] else [(''age'', VSeconds a)]))"
  using assms
  by (auto simp add: get_pod_metrics_def metrics_failed_def bindE_def log_def ret_def Let_def
      reported_def truthy_val_def str_or_none_def or_else_def split: option.splits)

text \<open>
  A pod whose CPU usage and creation time resolve and whose memory usage and restart count
  do not.
\<close>

theorem pod_metrics_reported_witness:
  "fst (run_command (scripted metered metered)
          (pod_field_cmd ''web-1'' ''arena'' ''{.status.containerStatuses[0].restartCount}'') True
          start) = Inr None \<and>
   (\<exists>m. fst (get_pod_metrics (scripted metered metered) ''web-1'' ''arena'' start) = Inr m \<and>
        reported m = [(''cpu'', VStr ''12m''), (''restarts'', VStr ''0''),
                      (''age'', VSeconds 90000000)])"
proof -
  let ?e = "scripted metered metered"
  let ?c1 = "top_cmd ''web-1'' ''arena'' ''2''"
  let ?c2 = "top_cmd ''web-1'' ''arena'' ''3''"
  let ?c3 = "pod_field_cmd ''web-1'' ''arena'' ''{.status.containerStatuses[0].restartCount}''"
  let ?c4 = "pod_field_cmd ''web-1'' ''arena'' ''{.metadata.creationTimestamp}''"
  let ?s1 = "snd (run_command ?e ?c1 True start)"
  let ?s2 = "snd (run_command ?e ?c2 True ?s1)"
  let ?s3 = "snd (run_command ?e ?c3 True ?s2)"
  let ?s4 = "snd (run_command ?e ?c4 True ?s3)"
  have f0: "fst (run_command ?e ?c3 True start) = Inr None" by code_simp
  have f1: "fst (run_command ?e ?c1 True start) = Inr (Some ''12m'')" by code_simp
  have f2: "fst (run_command ?e ?c2 True ?s1) = Inr None" by code_simp
  have f3: "fst (run_command ?e ?c3 True ?s2) = Inr None" by code_simp
  have f4: "fst (run_command ?e ?c4 True ?s3) = Inr (Some ''2024-05-01T10:00:00Z'')" by code_simp
  have a: "age_of ?e (world ?s4) ''2024-05-01T10:00:00Z'' = Some 90000000" by code_simp
  from pod_metrics_reported [OF pairI [OF f1] pairI [OF f2] pairI [OF f3] pairI [OF f4]]
  show ?thesis using f0 a by simp
qed

text \<open>
  Claim C8 as stated fails for the restart count: where its probe fails, the reported
  metrics hold the restart count \<open>0\<close>.
\<close>

theorem restarts_are_defaulted:
  "fst (run_command (scripted [] [])
          (pod_field_cmd ''web-1'' ''arena'' ''{.status.containerStatuses[0].restartCount}'')
          True start) = Inr None \<and>
   map_sum id reported (fst (get_pod_metrics (scripted [] []) ''web-1'' ''arena'' start))
     = Inr [(''restarts'', VStr ''0'')]"
  by code_simp

section \<open>Listing controllers and pods\<close>

lemma get_controllers_no_namespace:
  assumes "exec e (world s) (namespace_cmd namespace) False = (Exited rc out, w')"
    and "rc \<noteq> 0 \<or> strip out = []"
  shows "get_controllers e namespace s =
           (Inr No_tuple,
            s\<lparr>world := w',
              events := events s @
                [Logged INFO (Getting_controllers namespace), Ran (namespace_cmd namespace) False] @
                (if rc \<noteq> 0 then [Logged ERROR (Command_failed rc), Logged DEBUG Error_output]
                 else []) @
                [Logged ERROR (Namespace_missing namespace)]\<rparr>)"
proof -
  let ?s0 = "emit (Logged INFO (Getting_controllers namespace)) s"
  have ex: "exec e (world ?s0) (namespace_cmd namespace) False = (Exited rc out, w')"
    using assms(1) by (simp add: emit_def)
  have "get_controllers e namespace s =
          (if rc \<noteq> 0 then
             (Inr No_tuple, emit (Logged ERROR (Namespace_missing namespace))
                (?s0\<lparr>world := w', events := events ?s0 @
                   [Ran (namespace_cmd namespace) False, Logged ERROR (Command_failed rc),
                    Logged DEBUG Error_output]\<rparr>))
           else
             (Inr No_tuple, emit (Logged ERROR (Namespace_missing namespace))
                (?s0\<lparr>world := w', events := events ?s0 @
                   [Ran (namespace_cmd namespace) False]\<rparr>)))"
    using assms(2)
    by (simp add: get_controllers_def bindE_def log_def ret_def run_command_exec [OF ex]
        truthy_def)
  then show ?thesis
    by (simp add: emit_def)
qed

lemma names_of_combine:
  "out \<in> set outs \<Longrightarrow> out \<noteq> [] \<Longrightarrow> set (names_of out) \<subseteq> set (combine outs)"
proof -
  have gen: "\<And>acc. set (foldl (\<lambda>controllers output.
              if output \<noteq> [] then controllers @ names_of output else controllers) acc outs)
            = set acc \<union> (\<Union>x \<in> {x \<in> set outs. x \<noteq> []}. set (names_of x))"
    by (induction outs) auto
  assume "out \<in> set outs" "out \<noteq> []"
  then show ?thesis
    unfolding combine_def gen by auto
qed

text \<open>
  Claim C10. When the namespace check and the four listings return, the controllers are the
  names of the three non-empty outputs, just as the split gives them: every entry of a split,
  the empty ones too, is in the list of controllers. The pods are the names of the pods
  output with the empty names taken out, so no pod has the empty name.
\<close>

theorem get_controllers_keeps_empty_names:
  assumes "run_command e (namespace_cmd namespace) False
             (emit (Logged INFO (Getting_controllers namespace)) s) = (Inr ns_check, s1)"
    and "truthy ns_check"
    and "run_command e (list_cmd ''deployments'' namespace) False s1 = (Inr r1, s2)"
    and "run_command e (list_cmd ''statefulsets'' namespace) False s2 = (Inr r2, s3)"
    and "run_command e (list_cmd ''replicasets'' namespace) False s3 = (Inr r3, s4)"
    and "run_command e (list_cmd ''pods'' namespace) False
           (if combine [or_else r1 [], or_else r2 [], or_else r3 []] = []
            then emit (Logged WARNING No_controllers_found) s4 else s4) = (Inr r4, s5)"
  shows "\<exists>controllers pods s'.
           get_controllers e namespace s = (Inr (Tuple controllers pods), s') \<and>
           controllers = combine [or_else r1 [], or_else r2 [], or_else r3 []] \<and>
           (\<forall>out \<in> set [or_else r1 [], or_else r2 [], or_else r3 []].
              out \<noteq> [] \<longrightarrow> set (names_of out) \<subseteq> set controllers) \<and>
           pods = filter (\<lambda>pod. pod \<noteq> []) (names_of (or_else r4 [])) \<and>
           [] \<notin> set pods"
proof -
  let ?cs = "combine [or_else r1 [], or_else r2 [], or_else r3 []]"
  let ?ps = "filter (\<lambda>pod. pod \<noteq> []) (names_of (or_else r4 []))"
  have "get_controllers e namespace s =
          (Inr (Tuple ?cs ?ps), emit (Logged INFO (Found_pods (length ?ps) (length ?cs))) s5)"
    using assms
    by (simp add: get_controllers_def bindE_def log_def ret_def Let_def split: if_splits)
  moreover have "\<forall>out \<in> set [or_else r1 [], or_else r2 [], or_else r3 []].
              out \<noteq> [] \<longrightarrow> set (names_of out) \<subseteq> set ?cs"
    using names_of_combine by blast
  ultimately show ?thesis by simp
qed

text \<open>
  The listing of a cluster with two deployments and two pods has three empty controller
  names, and no empty pod name.
\<close>

theorem get_controllers_keeps_empty_names_witness:
  "(\<exists>controllers pods s'.
      get_controllers (scripted arena_before arena_after) ''arena'' start
        = (Inr (Tuple controllers pods), s') \<and>
      controllers = [''web'', ''api'', [], [], []] \<and> [] \<in> set controllers \<and>
      pods = [''web-1'', ''api-1''] \<and> [] \<notin> set pods)"
proof -
  let ?e = "scripted arena_before arena_after"
  let ?s0 = "emit (Logged INFO (Getting_controllers ''arena'')) start"
  let ?s1 = "snd (run_command ?e (namespace_cmd ''arena'') False ?s0)"
  let ?s2 = "snd (run_command ?e (list_cmd ''deployments'' ''arena'') False ?s1)"
  let ?s3 = "snd (run_command ?e (list_cmd ''statefulsets'' ''arena'') False ?s2)"
  let ?s4 = "snd (run_command ?e (list_cmd ''replicasets'' ''arena'') False ?s3)"
  let ?r1 = "Some (quoted_lines [''web'', ''api''])"
  let ?r2 = "Some (quoted_lines [])"
  let ?s4' = "if combine [or_else ?r1 [], or_else ?r2 [], or_else ?r2 []] = []
              then emit (Logged WARNING No_controllers_found) ?s4 else ?s4"
  have f0: "fst (run_command ?e (namespace_cmd ''arena'') False ?s0)
              = Inr (Some ''arena   Active   5d'')" by code_simp
  have t: "truthy (Some ''arena   Active   5d'')" by code_simp
  have f1: "fst (run_command ?e (list_cmd ''deployments'' ''arena'') False ?s1) = Inr ?r1"
    by code_simp
  have f2: "fst (run_command ?e (list_cmd ''statefulsets'' ''arena'') False ?s2) = Inr ?r2"
    by code_simp
  have f3: "fst (run_command ?e (list_cmd ''replicasets'' ''arena'') False ?s3) = Inr ?r2"
    by code_simp
  have f4: "fst (run_command ?e (list_cmd ''pods'' ''arena'') False ?s4')
              = Inr (Some (quoted_lines [''web-1'', ''api-1'']))"
    by code_simp
  have c: "combine [or_else ?r1 [], or_else ?r2 [], or_else ?r2 []] = [''web'', ''api'', [], [], []]"
    by code_simp
  have p: "filter (\<lambda>pod. pod \<noteq> [])
             (names_of (or_else (Some (quoted_lines [''web-1'', ''api-1''])) []))
           = [''web-1'', ''api-1'']"
    by code_simp
  from get_controllers_keeps_empty_names
         [OF pairI [OF f0] t pairI [OF f1] pairI [OF f2] pairI [OF f3] pairI [OF f4]]
  show ?thesis unfolding c p by auto
qed

section \<open>One round of the battle\<close>

lemma battle_round_raises:
  assumes "get_controllers e namespace (emit (Logged INFO (Round_header round_num)) s) = (Inl err, s1)"
  shows "battle_round e namespace interval strategy max_rounds round_num s = (Inl err, s1)"
  using assms by (simp add: battle_round_def bindE_def log_def)

lemma battle_round_no_tuple:
  assumes "get_controllers e namespace (emit (Logged INFO (Round_header round_num)) s)
             = (Inr No_tuple, s1)"
  shows "battle_round e namespace interval strategy max_rounds round_num s = (Inl ValueError, s1)"
  using assms by (simp add: battle_round_def bindE_def log_def raise_def)

lemma battle_round_empty:
  assumes "get_controllers e namespace (emit (Logged INFO (Round_header round_num)) s)
             = (Inr (Tuple controllers pods), s1)"
    and "controllers = [] \<or> pods = []"
  shows "battle_round e namespace interval strategy max_rounds round_num s =
           (Inr Break, emit (Logged INFO (if controllers = [] then Battle_over_no_controllers
                                    else Battle_over_no_pods)) s1)"
  using assms by (auto simp add: battle_round_def bindE_def log_def ret_def)

text \<open>
  Claim C2. When the namespace check at the start of a round gives nothing (the command
  exits with a non-zero status, or prints only white space), the battle ends in that round:
  the unpacking of the empty result raises a ValueError that leaves \<open>battle\<close>. The round
  has logged the error that the namespace does not exist, the only command it has run is the
  namespace check, and so no scale command and no reduction has been added; the loop being
  over, there is no later round.
\<close>

theorem missing_namespace_ends_battle:
  assumes "exec e (world s) (namespace_cmd namespace) False = (Exited rc out, w')"
    and "rc \<noteq> 0 \<or> strip out = []"
  shows "\<exists>s'. battle_loop (Suc fuel) e namespace interval strategy max_rounds round_num s
                = Some (Inl ValueError, s') \<and>
              events s' = events s @
                [Logged INFO (Round_header round_num),
                 Logged INFO (Getting_controllers namespace), Ran (namespace_cmd namespace) False] @
                (if rc \<noteq> 0 then [Logged ERROR (Command_failed rc), Logged DEBUG Error_output]
                 else []) @
                [Logged ERROR (Namespace_missing namespace)] \<and>
              scale_events (events s') = scale_events (events s) \<and>
              reduce_calls (events s') = reduce_calls (events s)"
proof -
  let ?s0 = "emit (Logged INFO (Round_header round_num)) s"
  have ex: "exec e (world ?s0) (namespace_cmd namespace) False = (Exited rc out, w')"
    using assms(1) by (simp add: emit_def)
  note gc = get_controllers_no_namespace [OF ex assms(2)]
  have "\<not> is_scale (namespace_cmd namespace)"
    by (simp add: namespace_cmd_def)
  then show ?thesis
    by (simp add: battle_round_no_tuple [OF gc] emit_def scale_events_def is_scale_event_def
        reduce_calls_def is_reduce_call_def)
qed

text \<open>
  A world in which every command fails.
\<close>

theorem missing_namespace_ends_battle_witness:
  "exec (scripted [] []) (world start) (namespace_cmd ''arena'') False = (Exited 1 [], 0) \<and>
   (\<exists>s'. battle_loop (Suc 0) (scripted [] []) ''arena'' 10 ''random'' None 1 start
            = Some (Inl ValueError, s') \<and>
          scale_events (events s') = scale_events (events start) \<and>
          Logged ERROR (Namespace_missing ''arena'') \<in> set (events s'))"
proof -
  have h1: "exec (scripted [] []) (world start) (namespace_cmd ''arena'') False = (Exited 1 [], 0)"
    by code_simp
  have h2: "(1::int) \<noteq> 0 \<or> strip [] = []" by simp
  from missing_namespace_ends_battle [OF h1 h2, of 0 10 "''random''" None 1]
  show ?thesis using h1 by auto
qed

text \<open>
  Claim C5. When the listing of a round has no controllers or no pods, the loop ends in that
  round with a \<open>break\<close>: after the listing it only logs that the battle is over, so
  nothing is selected and nothing is reduced.
\<close>

theorem empty_listing_ends_battle:
  assumes "get_controllers e namespace (emit (Logged INFO (Round_header round_num)) s)
             = (Inr (Tuple controllers pods), s1)"
    and "controllers = [] \<or> pods = []"
  shows "battle_loop (Suc fuel) e namespace interval strategy max_rounds round_num s =
           Some (Inr (),
                 emit (Logged INFO (if controllers = [] then Battle_over_no_controllers
                                    else Battle_over_no_pods)) s1)"
  by (simp add: battle_round_empty [OF assms])

text \<open>
  A cluster whose deployments have no pods left.
\<close>

theorem empty_listing_ends_battle_witness:
  "fst (get_controllers (scripted arena_after arena_after) ''arena''
          (emit (Logged INFO (Round_header 1)) start))
     = Inr (Tuple [''web'', ''api'', [], [], []] []) \<and>
   battle_loop (Suc 0) (scripted arena_after arena_after) ''arena'' 10 ''random'' None 1 start
     = Some (Inr (), emit (Logged INFO Battle_over_no_pods)
                       (snd (get_controllers (scripted arena_after arena_after) ''arena''
                               (emit (Logged INFO (Round_header 1)) start))))"
proof -
  let ?gc = "get_controllers (scripted arena_after arena_after) ''arena''
               (emit (Logged INFO (Round_header 1)) start)"
  have f: "fst ?gc = Inr (Tuple [''web'', ''api'', [], [], []] [])" by code_simp
  have h2: "[''web'', ''api'', [], [], []] = [] \<or> ([] :: string list) = []" by simp
  from empty_listing_ends_battle [OF pairI [OF f] h2, of 0 10 "''random''" None]
  show ?thesis using f by simp
qed

lemma get_pod_metrics_calls:
  "reduce_calls (events (snd (get_pod_metrics e pod_name namespace s))) = reduce_calls (events s)
   \<and> (\<exists>m. fst (get_pod_metrics e pod_name namespace s) = Inr m)"
proof -
  have rc: "\<And>c s r s'. run_command e c True s = (r, s') \<Longrightarrow>
              reduce_calls (events s') = reduce_calls (events s)"
    using run_command_calls by (metis snd_conv)
  show ?thesis
    unfolding get_pod_metrics_def metrics_failed_def
    by (auto simp add: bindE_def log_def ret_def Let_def dest!: rc
        split: prod.splits sum.splits option.splits)
qed

lemma report_pods_returns: "\<exists>s'. report_pods e namespace pods s = (Inr (), s')"
proof (induction pods arbitrary: s)
  case Nil
  then show ?case by (simp add: ret_def)
next
  case (Cons pod pods)
  obtain m s1 where "get_pod_metrics e pod namespace s = (Inr m, s1)"
    using get_pod_metrics_calls [of e pod namespace s]
    by (cases "get_pod_metrics e pod namespace s") auto
  with Cons show ?case
    by (simp add: bindE_def log_def)
qed

text \<open>
  A round that sees one controller and one pod ends the battle and names that pod the
  winner.
\<close>

lemma sole_pod_wins:
  assumes "get_controllers e namespace (emit (Logged INFO (Round_header round_num)) s)
             = (Inr (Tuple [c] [p]), s1)"
  shows "\<exists>s2. battle_loop (Suc fuel) e namespace interval strategy max_rounds round_num s =
                 Some (Inr (), emit (Logged INFO (Winner_pod p)) s2)"
proof -
  let ?s = "emit (Logged INFO (Current_pods 1)) (emit (Logged INFO (Remaining_controllers 1)) s1)"
  obtain s2 where "report_pods e namespace [p] ?s = (Inr (), s2)"
    using report_pods_returns by blast
  with assms show ?thesis
    by (auto simp add: battle_round_def bindE_def log_def ret_def simp del: report_pods.simps)
qed

text \<open>
  Claim C1, on the round that sees one controller and no pod. The listing is
  \<open>([web], [])\<close>; the loop ends in that round, its last line is the one of the
  \<open>if not pods\<close> branch, and the line that names the controller the winner is not logged:
  the branch that would log it comes after that \<open>break\<close> and is never reached.
\<close>

theorem lone_controller_without_pods_is_not_named_winner:
  "fst (get_controllers (scripted lonely lonely) ''arena''
          (emit (Logged INFO (Round_header 1)) start)) = Inr (Tuple [''web''] []) \<and>
   map_option fst (battle_loop 1 (scripted lonely lonely) ''arena'' 10 ''random'' None 1 start)
     = Some (Inr ()) \<and>
   map_option (last \<circ> events \<circ> snd)
     (battle_loop 1 (scripted lonely lonely) ''arena'' 10 ''random'' None 1 start)
     = Some (Logged INFO Battle_over_no_pods) \<and>
   Logged INFO (Winner_controller ''web'') \<notin>
     set (events (snd (the (battle_loop 1 (scripted lonely lonely) ''arena'' 10 ''random''
                              None 1 start))))"
  by code_simp

section \<open>The number of reductions\<close>

lemma adds_ret: "adds_at_most k (ret a)"
  by (simp add: adds_at_most_def ret_def)

lemma adds_raise: "adds_at_most k (raise err)"
  by (simp add: adds_at_most_def raise_def)

lemma adds_log: "adds_at_most k (log lvl msg)"
  by (simp add: adds_at_most_def log_def)

lemma adds_sleep: "adds_at_most k (sleep interval)"
  by (simp add: adds_at_most_def sleep_def emit_def reduce_calls_def is_reduce_call_def)

lemma adds_run_command: "adds_at_most k (run_command e c shell)"
  by (simp add: adds_at_most_def run_command_calls)

lemma adds_bindE:
  assumes "adds_at_most j m" and "\<And>a. adds_at_most k (f a)"
  shows "adds_at_most (j + k) (bindE m f)"
  unfolding adds_at_most_def
proof
  fix s
  obtain r s1 where ms: "m s = (r, s1)" by (cases "m s")
  from assms(1) have le1: "reduce_calls (events s1) \<le> reduce_calls (events s) + j"
    using ms by (auto simp add: adds_at_most_def dest: spec [where x = s])
  show "reduce_calls (events (snd (bindE m f s))) \<le> reduce_calls (events s) + (j + k)"
  proof (cases r)
    case (Inl err)
    with ms le1 show ?thesis by (simp add: bindE_def)
  next
    case (Inr a)
    from assms(2) [of a] have "reduce_calls (events (snd (f a s1))) \<le> reduce_calls (events s1) + k"
      by (simp add: adds_at_most_def)
    with Inr ms le1 show ?thesis by (simp add: bindE_def)
  qed
qed

lemma adds_bindE_quiet:
  assumes "adds_at_most 0 m" and "\<And>a. adds_at_most k (f a)"
  shows "adds_at_most k (bindE m f)"
  using adds_bindE [OF assms] by simp

lemma adds_if:
  "adds_at_most k m \<Longrightarrow> adds_at_most k m' \<Longrightarrow> adds_at_most k (if b then m else m')"
  by simp

lemmas adds_quiet = adds_ret adds_raise adds_log adds_sleep adds_run_command

lemma adds_get_controllers: "adds_at_most 0 (get_controllers e namespace)"
  unfolding get_controllers_def Let_def
  by (intro adds_bindE_quiet adds_if adds_quiet)

lemma adds_get_pod_metrics: "adds_at_most k (get_pod_metrics e pod_name namespace)"
  by (simp add: adds_at_most_def get_pod_metrics_calls)

lemma adds_report_pods: "adds_at_most 0 (report_pods e namespace pods)"
  by (induction pods) (auto intro!: adds_bindE_quiet adds_quiet adds_get_pod_metrics)

lemma adds_random_choice: "adds_at_most k (random_choice e xs)"
  by (simp add: adds_at_most_def random_choice_def split: prod.splits)

lemma adds_select:
  "adds_at_most 0 (select_controller_for_reduction e controllers namespace strategy)"
  unfolding select_controller_for_reduction_def
  by (intro adds_bindE_quiet adds_if adds_quiet adds_random_choice)

lemma adds_reduce_controller: "adds_at_most 1 (reduce_controller e c namespace t)"
proof -
  have step: "\<And>s. reduce_calls (events (emit (Invoked_reduce c namespace t) s))
                  = reduce_calls (events s) + 1"
    by (simp add: emit_def reduce_calls_def is_reduce_call_def)
  have body: "adds_at_most 0
     (bindE (run_command e (replicas_cmd (kind_of t) c namespace) True)
          (\<lambda>replicas.
             let give_up = bindE (log WARNING (Could_not_get_replicas t c))
                             (\<lambda>_. ret False)
             in case replicas of
                  None \<Rightarrow> give_up
                | Some r \<Rightarrow>
                    if r = [] \<or> \<not> isdigit r then give_up
                    else (case py_int r of
                            Inl err \<Rightarrow> raise err
                          | Inr n \<Rightarrow>
                              if n \<le> 0 then give_up
                              else
                                let new_replicas = max 0 (n - 1) in
                                bindE (log INFO (Reducing t c r new_replicas))
                                  (\<lambda>_.
                                bindE (run_command e
                                         (scale_cmd (kind_of t) c
                                            (str_int new_replicas) namespace) False)
                                  (\<lambda>result. ret (result \<noteq> None))))))"
    unfolding Let_def
    by (intro adds_bindE_quiet adds_quiet)
       (auto intro!: adds_bindE_quiet adds_quiet split: option.splits sum.splits)
  show ?thesis
    unfolding adds_at_most_def
  proof
    fix s
    from body [unfolded adds_at_most_def, rule_format, of "emit (Invoked_reduce c namespace t) s"]
    show "reduce_calls (events (snd (reduce_controller e c namespace t s)))
            \<le> reduce_calls (events s) + 1"
      using step [of s] by (cases "c = []") (simp_all add: reduce_controller_def Let_def)
  qed
qed

lemma adds_battle_round:
  "adds_at_most 1 (battle_round e namespace interval strategy max_rounds round_num)"
proof -
  have target: "\<And>sel. adds_at_most 1
      (case sel of
         None \<Rightarrow> ret ()
       | Some (target_controller, controller_type) \<Rightarrow>
           if target_controller \<noteq> [] then
             bindE (reduce_controller e target_controller namespace controller_type)
               (\<lambda>_. ret ())
           else ret ())"
    using adds_bindE [OF adds_reduce_controller, of 0 "\<lambda>_. ret ()"]
    by (auto simp add: adds_ret split: option.splits)
  have rest: "\<And>u. adds_at_most 0
      (if limit_reached max_rounds round_num then
         bindE (log INFO (Max_rounds_reached (the max_rounds))) (\<lambda>_. ret Break)
       else
         bindE (log INFO (Next_round_in interval)) (\<lambda>_.
         bindE (sleep interval) (\<lambda>_. ret Continue)))"
    by (intro adds_bindE_quiet adds_if adds_quiet)
  have tail: "\<And>sel. adds_at_most 1
      (bindE (case sel of
                None \<Rightarrow> ret ()
              | Some (target_controller, controller_type) \<Rightarrow>
                  if target_controller \<noteq> [] then
                    bindE (reduce_controller e target_controller namespace controller_type)
                      (\<lambda>_. ret ())
                  else ret ()) (\<lambda>_.
         if limit_reached max_rounds round_num then
           bindE (log INFO (Max_rounds_reached (the max_rounds))) (\<lambda>_. ret Break)
         else
           bindE (log INFO (Next_round_in interval)) (\<lambda>_.
           bindE (sleep interval) (\<lambda>_. ret Continue))))"
    using adds_bindE [OF target rest] by simp
  show ?thesis
    unfolding battle_round_def
    apply (rule adds_bindE_quiet [OF adds_log])
    apply (rule adds_bindE_quiet [OF adds_get_controllers])
    apply (split listing.split)
    apply (intro allI impI conjI adds_if adds_raise adds_ret tail
             adds_bindE_quiet [OF adds_log] adds_bindE_quiet [OF adds_report_pods]
             adds_bindE_quiet [OF adds_select]
             adds_bindE_quiet [OF adds_if [OF adds_log adds_log]])
    done
qed

lemma battle_round_continue:
  assumes "battle_round e namespace interval strategy max_rounds round_num s = (Inr Continue, s')"
  shows "\<not> limit_reached max_rounds round_num"
  using assms
  by (auto simp add: battle_round_def bindE_def log_def ret_def raise_def sleep_def
      split: prod.splits sum.splits listing.splits if_splits)

lemma battle_loop_bounded:
  assumes "0 < N" and "round_num \<le> N" and "nat (N - round_num) < fuel"
  shows "\<exists>r s'. battle_loop fuel e namespace interval strategy (Some N) round_num s = Some (r, s')
           \<and> reduce_calls (events s') \<le> reduce_calls (events s) + nat (N - round_num) + 1"
  using assms(2,3)
proof (induction fuel arbitrary: round_num s)
  case 0
  then show ?case by simp
next
  case (Suc fuel)
  obtain r s1 where rnd: "battle_round e namespace interval strategy (Some N) round_num s = (r, s1)"
    by (cases "battle_round e namespace interval strategy (Some N) round_num s")
  have le1: "reduce_calls (events s1) \<le> reduce_calls (events s) + 1"
    using adds_battle_round [of e namespace interval strategy "Some N" round_num] rnd
    by (auto simp add: adds_at_most_def dest: spec [where x = s])
  show ?case
  proof (cases r)
    case (Inl err)
    with rnd le1 show ?thesis by simp
  next
    case (Inr fl)
    show ?thesis
    proof (cases fl)
      case Break
      with Inr rnd le1 show ?thesis by simp
    next
      case Continue
      with Inr rnd have "\<not> limit_reached (Some N) round_num"
        using battle_round_continue by blast
      with assms(1) have lt: "round_num < N"
        by (simp add: limit_reached_def)
      with Suc.prems have a: "round_num + 1 \<le> N" and b: "nat (N - (round_num + 1)) < fuel"
        by auto
      from Suc.IH [OF a b, of s1] obtain r' s' where
        loop: "battle_loop fuel e namespace interval strategy (Some N) (round_num + 1) s1 = Some (r', s')"
        and le2: "reduce_calls (events s') \<le> reduce_calls (events s1) + nat (N - (round_num + 1)) + 1"
        by blast
      from lt have "nat (N - round_num) = nat (N - (round_num + 1)) + 1" by simp
      with le1 le2 have "reduce_calls (events s') \<le> reduce_calls (events s) + nat (N - round_num) + 1"
        by linarith
      with loop Continue Inr rnd show ?thesis by simp
    qed
  qed
qed

text \<open>
  Claim C6, as amended. For a positive \<open>max_rounds = N\<close>, the battle ends (fuel for
  \<open>N\<close> rounds is enough) and \<open>reduce_controller\<close> has been invoked at most \<open>N\<close>
  times.
\<close>

theorem battle_at_most_max_rounds_reductions:
  assumes "0 < N" and "nat N \<le> fuel"
  shows "\<exists>r s'. battle fuel e namespace interval strategy (Some N) s = Some (r, s')
           \<and> reduce_calls (events s') \<le> reduce_calls (events s) + nat N"
proof -
  let ?s0 = "emit (Logged INFO (Strategy_interval strategy interval))
               (emit (Logged INFO (Starting_battle namespace)) s)"
  from assms have a: "1 \<le> N" and b: "nat (N - 1) < fuel" by auto
  from battle_loop_bounded [OF assms(1) a b, of e namespace interval strategy ?s0]
  obtain r s' where
    "battle_loop fuel e namespace interval strategy (Some N) 1 ?s0 = Some (r, s')"
    and "reduce_calls (events s') \<le> reduce_calls (events ?s0) + nat (N - 1) + 1"
    by blast
  moreover from assms(1) have "nat (N - 1) + 1 = nat N" by simp
  ultimately show ?thesis
    by (auto simp add: battle_def)
qed

text \<open>
  One round on a cluster with two deployments.
\<close>

theorem battle_at_most_max_rounds_reductions_witness:
  "(0::int) < 1 \<and> nat 1 \<le> (1::nat) \<and>
   (\<exists>r s'. battle 1 (scripted arena_before arena_after) ''arena'' 10 ''random'' (Some 1) start
              = Some (r, s') \<and> reduce_calls (events s') \<le> reduce_calls (events start) + nat 1)"
proof -
  have h1: "(0::int) < 1" and h2: "nat 1 \<le> (1::nat)" by simp_all
  from battle_at_most_max_rounds_reductions [OF h1 h2] show ?thesis by simp
qed

text \<open>
  Claim C6 as stated fails for \<open>N = 0\<close> and for a negative \<open>N\<close>. With
  \<open>max_rounds = 0\<close> the limit counts as not set: the battle goes into a second round, where
  it ends because no pod is left, and by then it has invoked one reduction. With
  \<open>max_rounds = -1\<close> the battle ends after its first round, in which it has invoked one
  reduction.
\<close>

theorem max_rounds_zero_is_no_limit:
  "map_option fst (battle 2 (scripted arena_before arena_after) ''arena'' 10 ''random'' (Some 0) start)
     = Some (Inr ()) \<and>
   map_option (reduce_calls \<circ> events \<circ> snd)
     (battle 2 (scripted arena_before arena_after) ''arena'' 10 ''random'' (Some 0) start)
     = Some 1 \<and>
   map_option fst (battle 1 (scripted arena_before arena_after) ''arena'' 10 ''random'' (Some (- 1)) start)
     = Some (Inr ()) \<and>
   map_option (reduce_calls \<circ> events \<circ> snd)
     (battle 1 (scripted arena_before arena_after) ''arena'' 10 ''random'' (Some (- 1)) start)
     = Some 1"
  by code_simp

section \<open>Failed probes\<close>








lemma returns_get_pod_metrics: "returns (get_pod_metrics e pod_name namespace)"
  unfolding returns_def
proof
  fix s
  from get_pod_metrics_calls [of e pod_name namespace s]
  show "\<exists>a s'. get_pod_metrics e pod_name namespace s = (Inr a, s')"
    by (cases "get_pod_metrics e pod_name namespace s") auto
qed











end
